theory Spec2Isabelle
  imports Main
begin

section \<open>Domain constants (domain/repositories/database.repository.ts)\<close>

text \<open>
  \<^verbatim>\<open>enum DatabaseExtension\<close>: the members and their string values. The string value is what a
  template literal renders and what keys the \<^verbatim>\<open>extName\<close> record.
\<close>

datatype DatabaseExtension = CUBE | EARTH_DISTANCE | VECTOR | VECTORS

fun DatabaseExtension_value :: "DatabaseExtension \<Rightarrow> string" where
  "DatabaseExtension_value CUBE = ''cube''"
| "DatabaseExtension_value EARTH_DISTANCE = ''earthdistance''"
| "DatabaseExtension_value VECTOR = ''vector''"
| "DatabaseExtension_value VECTORS = ''vectors''"

text \<open>\<^verbatim>\<open>enum DatabaseLock\<close>: the numeric value and the reverse mapping \<^verbatim>\<open>DatabaseLock[lock]\<close>.\<close>

datatype DatabaseLock = GeodataImport | StorageTemplateMigration | CLIPDimSize

fun DatabaseLock_value :: "DatabaseLock \<Rightarrow> nat" where
  "DatabaseLock_value GeodataImport = 100"
| "DatabaseLock_value StorageTemplateMigration = 420"
| "DatabaseLock_value CLIPDimSize = 512"

fun DatabaseLock_name :: "DatabaseLock \<Rightarrow> string" where
  "DatabaseLock_name GeodataImport = ''GeodataImport''"
| "DatabaseLock_name StorageTemplateMigration = ''StorageTemplateMigration''"
| "DatabaseLock_name CLIPDimSize = ''CLIPDimSize''"

text \<open>\<^verbatim>\<open>const extName: Record<DatabaseExtension, string>\<close>.\<close>

fun extName :: "DatabaseExtension \<Rightarrow> string" where
  "extName CUBE = ''cube''"
| "extName EARTH_DISTANCE = ''earthdistance''"
| "extName VECTOR = ''pgvector''"
| "extName VECTORS = ''pgvecto.rs''"

text \<open>
  The two members of \<^verbatim>\<open>VectorIndex\<close> that the repository names (\<^verbatim>\<open>VectorIndex.CLIP\<close>,
  \<^verbatim>\<open>VectorIndex.FACE\<close>) and the result type \<^verbatim>\<open>VectorUpdateResult\<close>. The string values of
  \<^verbatim>\<open>VectorIndex\<close> are declared outside the sources modelled here, so the index name that a template
  literal renders is a parameter (\<open>indexName\<close> of the environment below).
\<close>

datatype VectorIndex = CLIP | FACE

record VectorUpdateResult =
  restartRequired :: bool

section \<open>Errors\<close>

text \<open>
  A thrown JavaScript \<^verbatim>\<open>Error\<close> carries its message; a failed database call throws one too.
  \<open>ParseError\<close> is the failure of \<^verbatim>\<open>Version.fromString\<close>, carrying the text it was given.
\<close>

datatype error = Error (message: string) | ParseError (message: string)

section \<open>Version (domain.constant)\<close>

text \<open>
  Modelled from the spec: the class \<^verbatim>\<open>Version\<close> is imported from \<^verbatim>\<open>domain.constant\<close>, which is
  outside the sources modelled here. A version is the three non-negative integers
  \<open>major\<close>, \<open>minor\<close>, \<open>patch\<close>; the constructor \<^verbatim>\<open>new Version(0, 1, 1)\<close> of the repository
  takes exactly these.
\<close>

datatype Version = Version (major: nat) (minor: nat) (patch: nat)

text \<open>
  Modelled from the spec: \<^verbatim>\<open>VersionType\<close>, the granularity at which two versions differ,
  ordered none < patch < minor < major.
\<close>

datatype VersionType = EQUAL | PATCH | MINOR | MAJOR

fun VersionType_value :: "VersionType \<Rightarrow> nat" where
  "VersionType_value EQUAL = 0"
| "VersionType_value PATCH = 1"
| "VersionType_value MINOR = 2"
| "VersionType_value MAJOR = 3"

text \<open>
  Modelled from the spec: \<^verbatim>\<open>isOlderThan\<close> compares lexicographically over
  (major, minor, patch) and returns how far apart the two versions are when the receiver
  is the older one, and \<open>EQUAL\<close> otherwise.
\<close>

definition isOlderThan :: "Version \<Rightarrow> Version \<Rightarrow> VersionType" where
  "isOlderThan a b =
     (if major a \<noteq> major b then (if major a < major b then MAJOR else EQUAL)
      else if minor a \<noteq> minor b then (if minor a < minor b then MINOR else EQUAL)
      else if patch a \<noteq> patch b then (if patch a < patch b then PATCH else EQUAL)
      else EQUAL)"

text \<open>Modelled from the spec: \<^verbatim>\<open>isEqual\<close> holds when the three components agree.\<close>

definition isEqual :: "Version \<Rightarrow> Version \<Rightarrow> bool" where
  "isEqual a b = (major a = major b \<and> minor a = minor b \<and> patch a = patch b)"

text \<open>
  Modelled from the spec: \<^verbatim>\<open>Version.fromString\<close> accepts \<^verbatim>\<open><uint>.<uint>.<uint>\<close>,
  optionally followed by \<^verbatim>\<open>-<suffix>\<close>, and fails with a parse error on any other text. The
  suffix is dropped.
\<close>

definition isDigit :: "char \<Rightarrow> bool" where
  "isDigit c = (48 \<le> (of_char c :: nat) \<and> (of_char c :: nat) \<le> 57)"

definition isUint :: "string \<Rightarrow> bool" where
  "isUint s = (s \<noteq> [] \<and> list_all isDigit s)"

definition uintOf :: "string \<Rightarrow> nat" where
  "uintOf s = foldl (\<lambda>a c. 10 * a + ((of_char c :: nat) - 48)) 0 s"

fun splitOn :: "char \<Rightarrow> string \<Rightarrow> string list" where
  "splitOn d [] = [[]]"
| "splitOn d (c # cs) =
     (if c = d then [] # splitOn d cs
      else (case splitOn d cs of [] \<Rightarrow> [[c]] | p # ps \<Rightarrow> (c # p) # ps))"

definition fromString :: "string \<Rightarrow> error + Version" where
  "fromString text =
     (case splitOn (CHR ''.'') (takeWhile (\<lambda>c. c \<noteq> CHR ''-'') text) of
        [a, b, c] \<Rightarrow>
          if isUint a \<and> isUint b \<and> isUint c
          then Inr (Version (uintOf a) (uintOf b) (uintOf c))
          else Inl (ParseError text)
      | _ \<Rightarrow> Inl (ParseError text))"

text \<open>
  Modelled from the spec: \<^verbatim>\<open>toString\<close> renders the canonical \<^verbatim>\<open>major.minor.patch\<close> in
  decimal. A template literal \<^verbatim>\<open>${version}\<close> renders a version through it.
\<close>

definition digitChar :: "nat \<Rightarrow> char" where
  "digitChar n = ''0123456789'' ! n"

function decimal :: "nat \<Rightarrow> string" where
  "decimal n = (if n < 10 then [digitChar n] else decimal (n div 10) @ [digitChar (n mod 10)])"
  by pat_completeness auto
termination
  by (relation "measure (\<lambda>n. n)") auto

declare decimal.simps [simp del]

definition toString :: "Version \<Rightarrow> string" where
  "toString v = decimal (major v) @ ''.'' @ decimal (minor v) @ ''.'' @ decimal (patch v)"

section \<open>The database and the effects of a call\<close>

text \<open>
  Everything a repository method does to the outside is an event, recorded in order in a
  history: a statement sent through the data source or its manager (\<open>Query\<close>), a warning
  logged, the bracket of a transaction, the in-process mutex of \<^verbatim>\<open>async-lock\<close>, and the
  dedicated query runner of \<^verbatim>\<open>withLock\<close> with the statements sent through it.
\<close>

datatype param = PText string | PNum nat

datatype event =
    Query string "param list"
  | LogWarn string
  | TxBegin
  | TxCommit
  | TxRollback
  | MutexAcquire string
  | MutexRelease string
  | CreateQueryRunner
  | RunnerQuery string "param list"
  | RunnerRelease

type_synonym history = "event list"

text \<open>
  A statement either throws (with the message of the driver's error) or returns rows; a row
  maps column names to values. What the database answers is a function of everything that
  happened before and of the statement: this covers every deterministic database.
\<close>

datatype sqlval = SqlNull | SqlText string

type_synonym row = "(string \<times> sqlval) list"

datatype response = Failed string | Rows "row list"

text \<open>
  The environment of the repository: its data source, the module constant \<^verbatim>\<open>vectorExt\<close> of
  \<^verbatim>\<open>database.config\<close> (fixed when the process starts), and the string values of
  \<^verbatim>\<open>VectorIndex\<close>.
\<close>

record env =
  dataSource :: "history \<Rightarrow> event \<Rightarrow> response"
  vectorExt :: DatabaseExtension
  indexName :: "VectorIndex \<Rightarrow> string"

text \<open>
  An asynchronous method is a function from the history so far to its outcome (an error
  thrown, or a value returned) and the history it leaves. \<^verbatim>\<open>await\<close> sequences.
\<close>

type_synonym 'a io = "history \<Rightarrow> (error + 'a) \<times> history"

definition andThen :: "'a io \<Rightarrow> ('a \<Rightarrow> 'b io) \<Rightarrow> 'b io" where
  "andThen m f h = (case m h of (Inl e, h') \<Rightarrow> (Inl e, h') | (Inr a, h') \<Rightarrow> f a h')"

definition returns :: "'a \<Rightarrow> 'a io" where
  "returns a h = (Inr a, h)"

definition throws :: "error \<Rightarrow> 'a io" where
  "throws e h = (Inl e, h)"

text \<open>\<^verbatim>\<open>try { body } catch (err) { handler }\<close> and \<^verbatim>\<open>try { body } finally { cleanup }\<close>:
  the cleanup always runs; when it throws, its error replaces the outcome of the body.\<close>

definition tryCatch :: "'a io \<Rightarrow> (error \<Rightarrow> 'a io) \<Rightarrow> 'a io" where
  "tryCatch body handler h =
     (case body h of (Inl e, h') \<Rightarrow> handler e h' | (Inr a, h') \<Rightarrow> (Inr a, h'))"

definition tryFinally :: "'a io \<Rightarrow> unit io \<Rightarrow> 'a io" where
  "tryFinally body cleanup h =
     (case body h of (r, h') \<Rightarrow>
        (case cleanup h' of (Inl e, h'') \<Rightarrow> (Inl e, h'') | (Inr _, h'') \<Rightarrow> (r, h'')))"

text \<open>\<^verbatim>\<open>dataSource.query\<close> and \<^verbatim>\<open>manager.query\<close>: the statement is sent (and recorded), and
  the answer of the database is the outcome.\<close>

definition query :: "env \<Rightarrow> string \<Rightarrow> param list \<Rightarrow> (row list) io" where
  "query c sql ps h =
     (case dataSource c h (Query sql ps) of
        Failed msg \<Rightarrow> (Inl (Error msg), h @ [Query sql ps])
      | Rows rs \<Rightarrow> (Inr rs, h @ [Query sql ps]))"

text \<open>\<^verbatim>\<open>logger.warn\<close>.\<close>

definition warn :: "string \<Rightarrow> unit io" where
  "warn msg h = (Inr (), h @ [LogWarn msg])"

text \<open>
  \<^verbatim>\<open>manager.transaction(body)\<close> of the ORM: the body runs between the start of a
  transaction and its commit; when the body throws, the transaction is rolled back and the
  error is thrown on.
\<close>

definition transaction :: "'a io \<Rightarrow> 'a io" where
  "transaction body h =
     (case body (h @ [TxBegin]) of
        (Inl e, h') \<Rightarrow> (Inl e, h' @ [TxRollback])
      | (Inr a, h') \<Rightarrow> (Inr a, h' @ [TxCommit]))"

text \<open>
  \<^verbatim>\<open>asyncLock.acquire(key, fn)\<close> of \<^verbatim>\<open>async-lock\<close>: \<open>fn\<close> runs while the mutex of \<open>key\<close> is
  held, and the mutex is released when \<open>fn\<close> settles, whether it returned or threw.
\<close>

definition asyncLock_acquire :: "string \<Rightarrow> 'a io \<Rightarrow> 'a io" where
  "asyncLock_acquire key fn h =
     (case fn (h @ [MutexAcquire key]) of (r, h') \<Rightarrow> (r, h' @ [MutexRelease key]))"

text \<open>\<^verbatim>\<open>dataSource.createQueryRunner()\<close>, \<^verbatim>\<open>queryRunner.query\<close>, \<^verbatim>\<open>queryRunner.release()\<close>.\<close>

definition createQueryRunner :: "unit io" where
  "createQueryRunner h = (Inr (), h @ [CreateQueryRunner])"

definition runnerQuery :: "env \<Rightarrow> string \<Rightarrow> param list \<Rightarrow> (row list) io" where
  "runnerQuery c sql ps h =
     (case dataSource c h (RunnerQuery sql ps) of
        Failed msg \<Rightarrow> (Inl (Error msg), h @ [RunnerQuery sql ps])
      | Rows rs \<Rightarrow> (Inr rs, h @ [RunnerQuery sql ps]))"

definition runnerRelease :: "env \<Rightarrow> unit io" where
  "runnerRelease c h =
     (case dataSource c h RunnerRelease of
        Failed msg \<Rightarrow> (Inl (Error msg), h @ [RunnerRelease])
      | Rows _ \<Rightarrow> (Inr (), h @ [RunnerRelease]))"

text \<open>\<^verbatim>\<open>res[0]?.[column]\<close>: the cell of the first row; \<^verbatim>\<open>undefined\<close> (no row, no such column)
  and \<^verbatim>\<open>null\<close> are both \<open>SqlNull\<close>, as \<^verbatim>\<open>== null\<close> does not tell them apart.\<close>

definition firstCell :: "row list \<Rightarrow> string \<Rightarrow> sqlval" where
  "firstCell res column =
     (case res of
        [] \<Rightarrow> SqlNull
      | r # _ \<Rightarrow> (case map_of r column of None \<Rightarrow> SqlNull | Some v \<Rightarrow> v))"

text \<open>\<^verbatim>\<open>message.includes(needle)\<close>.\<close>

fun startsWith :: "string \<Rightarrow> string \<Rightarrow> bool" where
  "startsWith s [] = True"
| "startsWith [] (n # ns) = False"
| "startsWith (c # cs) (n # ns) = (c = n \<and> startsWith cs ns)"

fun str_includes :: "string \<Rightarrow> string \<Rightarrow> bool" where
  "str_includes [] needle = (needle = [])"
| "str_includes (c # cs) needle = (startsWith (c # cs) needle \<or> str_includes cs needle)"

section \<open>DatabaseRepository (infra/repositories/database.repository.ts)\<close>

definition getExtensionVersion :: "env \<Rightarrow> DatabaseExtension \<Rightarrow> (Version option) io" where
  "getExtensionVersion c extension =
     andThen (query c ''SELECT extversion FROM pg_extension WHERE extname = $1''
                [PText (DatabaseExtension_value extension)])
       (\<lambda>res. case firstCell res ''extversion'' of
          SqlNull \<Rightarrow> returns None
        | SqlText extVersion \<Rightarrow>
            (case fromString extVersion of
               Inl e \<Rightarrow> throws e
             | Inr version \<Rightarrow>
                 if isEqual version (Version 0 1 1) then returns (Some (Version 0 1 11))
                 else returns (Some version)))"

definition getAvailableExtensionVersion :: "env \<Rightarrow> DatabaseExtension \<Rightarrow> (Version option) io" where
  "getAvailableExtensionVersion c extension =
     andThen (query c (''\<newline>    SELECT version FROM pg_available_extension_versions'' @
                       ''\<newline>    WHERE name = $1 AND installed = false'' @
                       ''\<newline>    ORDER BY version DESC'')
                [PText (DatabaseExtension_value extension)])
       (\<lambda>res. case firstCell res ''version'' of
          SqlNull \<Rightarrow> returns None
        | SqlText version \<Rightarrow>
            (case fromString version of
               Inl e \<Rightarrow> throws e
             | Inr v \<Rightarrow> returns (Some v)))"

text \<open>In the statements below \<open>CHR 0x27\<close> is the single quote of the template literals.\<close>

definition updateExtension :: "env \<Rightarrow> DatabaseExtension \<Rightarrow> Version option \<Rightarrow> unit io" where
  "updateExtension c extension version =
     andThen (query c (''ALTER EXTENSION '' @ DatabaseExtension_value extension @ '' UPDATE'' @
                       (case version of
                          Some v \<Rightarrow> '' TO '' @ [CHR 0x27] @ toString v @ [CHR 0x27]
                        | None \<Rightarrow> '''')) [])
       (\<lambda>_. returns ())"

definition reindex :: "env \<Rightarrow> VectorIndex \<Rightarrow> unit io" where
  "reindex c index =
     tryCatch
       (andThen (query c (''REINDEX INDEX '' @ indexName c index) []) (\<lambda>_. returns ()))
       (\<lambda>err.
          if vectorExt c = VECTORS then
            andThen (warn (''Could not reindex index '' @ indexName c index @
                           ''. Attempting to auto-fix.''))
              (\<lambda>_. let table = (if index = CLIP then ''smart_search'' else ''asset_faces'') in
                 transaction
                   (andThen (query c (''ALTER TABLE '' @ table @
                                      '' ALTER COLUMN embedding SET DATA TYPE real[]'') [])
                      (\<lambda>_. andThen (query c (''ALTER TABLE '' @ table @
                                              '' ALTER COLUMN embedding SET DATA TYPE vector'') [])
                         (\<lambda>_. andThen (query c (''REINDEX INDEX '' @ indexName c index) [])
                            (\<lambda>_. returns ())))))
          else throws err)"

definition shouldReindex :: "env \<Rightarrow> VectorIndex \<Rightarrow> bool io" where
  "shouldReindex c name =
     (if vectorExt c \<noteq> VECTORS then returns False
      else
        tryCatch
          (andThen (query c (''\<newline>          SELECT idx_status'' @
                             ''\<newline>          FROM pg_vector_index_stat'' @
                             ''\<newline>          WHERE indexname = $1'')
                      [PText (indexName c name)])
             (\<lambda>res. returns (firstCell res ''idx_status'' = SqlText ''UPGRADE'')))
          (\<lambda>err. if str_includes (message err) ''index is not existing'' then returns True
                 else throws err))"

definition updateVectorsSchema :: "env \<Rightarrow> Version \<Rightarrow> unit io" where
  "updateVectorsSchema c curVersion =
     andThen (query c ''CREATE SCHEMA IF NOT EXISTS vectors'' [])
       (\<lambda>_. andThen (query c ''UPDATE pg_catalog.pg_extension SET extversion = $1 WHERE extname = $2''
                        [PText (toString curVersion), PText (DatabaseExtension_value VECTORS)])
       (\<lambda>_. andThen (query c ''UPDATE pg_catalog.pg_extension SET extrelocatable = true WHERE extname = $1''
                        [PText (DatabaseExtension_value VECTORS)])
       (\<lambda>_. andThen (query c ''ALTER EXTENSION vectors SET SCHEMA vectors'' [])
       (\<lambda>_. andThen (query c ''UPDATE pg_catalog.pg_extension SET extrelocatable = false WHERE extname = $1''
                        [PText (DatabaseExtension_value VECTORS)])
       (\<lambda>_. returns ())))))"

text \<open>
  \<^verbatim>\<open>minorOrMajor = version && curVersion.isOlderThan(version) >= VersionType.MINOR\<close>: an
  absent \<open>version\<close> makes it falsy. The statement sent in the middle is the template literal
  \<^verbatim>\<open>`ALTER EXTENSION ${extension} UPDATE${version ? ` TO '${version}-alpha.2'` : ''}`\<close>,
  named \<open>upgradeStatement\<close> here.
\<close>

definition upgradeStatement :: "DatabaseExtension \<Rightarrow> Version option \<Rightarrow> string" where
  "upgradeStatement extension version =
     ''ALTER EXTENSION '' @ DatabaseExtension_value extension @ '' UPDATE'' @
     (case version of
        Some v \<Rightarrow> '' TO '' @ [CHR 0x27] @ toString v @ ''-alpha.2'' @ [CHR 0x27]
      | None \<Rightarrow> '''')"

definition updateVectorExtension ::
  "env \<Rightarrow> DatabaseExtension \<Rightarrow> Version option \<Rightarrow> VectorUpdateResult io" where
  "updateVectorExtension c extension version =
     andThen (getExtensionVersion c extension)
       (\<lambda>cur. case cur of
          None \<Rightarrow> throws (Error (extName extension @ '' extension is not installed''))
        | Some curVersion \<Rightarrow>
            let minorOrMajor =
                  (case version of
                     None \<Rightarrow> False
                   | Some v \<Rightarrow> VersionType_value (isOlderThan curVersion v) \<ge> VersionType_value MINOR);
                isVectors = (extension = VECTORS)
            in
              andThen (if minorOrMajor \<and> isVectors then updateVectorsSchema c curVersion
                       else returns ())
                (\<lambda>_. andThen (query c (upgradeStatement extension version) [])
                   (\<lambda>_. if \<not> minorOrMajor then returns \<lparr>restartRequired = False\<rparr>
                         else if isVectors then
                           andThen (query c ''SELECT pgvectors_upgrade()'' [])
                             (\<lambda>_. returns \<lparr>restartRequired = True\<rparr>)
                         else
                           andThen (reindex c CLIP)
                             (\<lambda>_. andThen (reindex c FACE)
                                (\<lambda>_. returns \<lparr>restartRequired = False\<rparr>)))))"

definition acquireLock :: "env \<Rightarrow> DatabaseLock \<Rightarrow> unit io" where
  "acquireLock c lock =
     andThen (runnerQuery c ''SELECT pg_advisory_lock($1)'' [PNum (DatabaseLock_value lock)])
       (\<lambda>_. returns ())"

definition releaseLock :: "env \<Rightarrow> DatabaseLock \<Rightarrow> unit io" where
  "releaseLock c lock =
     andThen (runnerQuery c ''SELECT pg_advisory_unlock($1)'' [PNum (DatabaseLock_value lock)])
       (\<lambda>_. returns ())"

text \<open>
  \<^verbatim>\<open>withLock\<close>: the value that the body of \<^verbatim>\<open>asyncLock.acquire\<close> stores in \<^verbatim>\<open>res\<close> is the value
  returned after it; when anything inside throws, \<^verbatim>\<open>withLock\<close> throws.
\<close>

definition withLock :: "env \<Rightarrow> DatabaseLock \<Rightarrow> 'r io \<Rightarrow> 'r io" where
  "withLock c lock callback =
     asyncLock_acquire (DatabaseLock_name lock)
       (andThen createQueryRunner
          (\<lambda>_. tryFinally
                  (andThen (acquireLock c lock) (\<lambda>_. callback))
                  (tryFinally (releaseLock c lock) (runnerRelease c))))"

section \<open>Answers of the database\<close>

text \<open>\<open>accepts ds h qs\<close>: the statements \<open>qs\<close>, sent one after the other from the history
  \<open>h\<close>, are all answered without an error.\<close>

fun accepts :: "(history \<Rightarrow> event \<Rightarrow> response) \<Rightarrow> history \<Rightarrow> event list \<Rightarrow> bool" where
  "accepts ds h [] = True"
| "accepts ds h (q # qs) =
     ((case ds h q of Failed _ \<Rightarrow> False | Rows _ \<Rightarrow> True) \<and> accepts ds (h @ [q]) qs)"

section \<open>Example databases\<close>

text \<open>
  Concrete databases on which the theorems below are instantiated: one that answers every
  statement with the same rows, one that fails a given statement every time, and one that
  fails it the first time only. \<open>indexNames\<close> gives the two indexes example names.
\<close>

definition indexNames :: "VectorIndex \<Rightarrow> string" where
  "indexNames i = (if i = CLIP then ''clip_index'' else ''face_index'')"

definition answering :: "row list \<Rightarrow> history \<Rightarrow> event \<Rightarrow> response" where
  "answering rs h q = Rows rs"

definition failingOn :: "event \<Rightarrow> string \<Rightarrow> row list \<Rightarrow> history \<Rightarrow> event \<Rightarrow> response" where
  "failingOn ev msg rs h q = (if q = ev then Failed msg else Rows rs)"

definition failingOnce :: "event \<Rightarrow> string \<Rightarrow> row list \<Rightarrow> history \<Rightarrow> event \<Rightarrow> response" where
  "failingOnce ev msg rs h q = (if q = ev \<and> ev \<notin> set h then Failed msg else Rows rs)"

section \<open>Auxiliary facts\<close>

lemma getExtensionVersion_history:
  "snd (getExtensionVersion c e h) =
     h @ [Query ''SELECT extversion FROM pg_extension WHERE extname = $1''
            [PText (DatabaseExtension_value e)]]"
  by (simp add: getExtensionVersion_def andThen_def query_def returns_def throws_def
           split: response.splits sqlval.splits sum.splits)

lemma updateVectorsSchema_accepted:
  assumes "accepts (dataSource c) h
     ([Query ''CREATE SCHEMA IF NOT EXISTS vectors'' [],
       Query ''UPDATE pg_catalog.pg_extension SET extversion = $1 WHERE extname = $2''
         [PText (toString curVersion), PText ''vectors''],
       Query ''UPDATE pg_catalog.pg_extension SET extrelocatable = true WHERE extname = $1''
         [PText ''vectors''],
       Query ''ALTER EXTENSION vectors SET SCHEMA vectors'' [],
       Query ''UPDATE pg_catalog.pg_extension SET extrelocatable = false WHERE extname = $1''
         [PText ''vectors'']] @ qs)"
  shows "updateVectorsSchema c curVersion h = (Inr (), h @
      [Query ''CREATE SCHEMA IF NOT EXISTS vectors'' [],
       Query ''UPDATE pg_catalog.pg_extension SET extversion = $1 WHERE extname = $2''
         [PText (toString curVersion), PText ''vectors''],
       Query ''UPDATE pg_catalog.pg_extension SET extrelocatable = true WHERE extname = $1''
         [PText ''vectors''],
       Query ''ALTER EXTENSION vectors SET SCHEMA vectors'' [],
       Query ''UPDATE pg_catalog.pg_extension SET extrelocatable = false WHERE extname = $1''
         [PText ''vectors'']])"
  using assms
  by (auto simp: updateVectorsSchema_def andThen_def query_def returns_def split: response.splits)

lemma reindex_accepted:
  assumes "accepts (dataSource c) h (Query (''REINDEX INDEX '' @ indexName c index) [] # qs)"
  shows "reindex c index h = (Inr (), h @ [Query (''REINDEX INDEX '' @ indexName c index) []])"
  using assms
  by (auto simp: reindex_def tryCatch_def andThen_def query_def returns_def split: response.splits)

lemma reindex_unfolded:
  assumes "R = ''REINDEX INDEX '' @ indexName c index"
    and "W = ''Could not reindex index '' @ indexName c index @ ''. Attempting to auto-fix.''"
    and "A1 = ''ALTER TABLE '' @ (if index = CLIP then ''smart_search'' else ''asset_faces'') @
               '' ALTER COLUMN embedding SET DATA TYPE real[]''"
    and "A2 = ''ALTER TABLE '' @ (if index = CLIP then ''smart_search'' else ''asset_faces'') @
               '' ALTER COLUMN embedding SET DATA TYPE vector''"
  shows "reindex c index =
     tryCatch
       (andThen (query c R []) (\<lambda>_. returns ()))
       (\<lambda>err.
          if vectorExt c = VECTORS then
            andThen (warn W)
              (\<lambda>_. transaction
                   (andThen (query c A1 [])
                      (\<lambda>_. andThen (query c A2 [])
                         (\<lambda>_. andThen (query c R []) (\<lambda>_. returns ())))))
          else throws err)"
  unfolding assms reindex_def Let_def ..

text \<open>The example versions, parsed and rendered.\<close>

lemma fromString_examples:
  "fromString ''0.5.0'' = Inr (Version 0 5 0)"
  "fromString ''0.2.0'' = Inr (Version 0 2 0)"
  "fromString ''0.1.1'' = Inr (Version 0 1 1)"
  "fromString ''0.1.11'' = Inr (Version 0 1 11)"
  by (simp_all add: fromString_def isUint_def isDigit_def uintOf_def)

lemma toString_examples:
  "toString (Version 0 7 0) = ''0.7.0''"
  "toString (Version 0 5 1) = ''0.5.1''"
  "toString (Version 0 3 0) = ''0.3.0''"
  "toString (Version 0 2 0) = ''0.2.0''"
  by (simp_all add: toString_def decimal.simps digitChar_def)

lemma getExtensionVersion_answering:
  assumes "fromString text = Inr v" and "\<not> isEqual v (Version 0 1 1)"
  shows "getExtensionVersion
           \<lparr>dataSource = answering [[(''extversion'', SqlText text)]], vectorExt = x, indexName = n\<rparr>
           extension h =
         (Inr (Some v),
          h @ [Query ''SELECT extversion FROM pg_extension WHERE extname = $1''
                 [PText (DatabaseExtension_value extension)]])"
  using assms
  by (simp add: getExtensionVersion_def andThen_def query_def returns_def answering_def
        firstCell_def)

section \<open>updateVectorExtension\<close>

text \<open>
  Claim C1, evaluated on the code. With pgvector 0.5.0 installed and the target 0.7.0, whose
  rendering is \<open>0.7.0\<close>, \<^verbatim>\<open>updateVectorExtension\<close> sends the upgrade statement with the text
  \<open>0.7.0-alpha.2\<close> in its \<open>TO\<close> clause: the suffix \<open>-alpha.2\<close> is appended to the target
  version. The sibling \<^verbatim>\<open>updateExtension\<close> renders the same target verbatim.
\<close>

theorem updateVectorExtension_appends_suffix:
  "updateVectorExtension
     \<lparr>dataSource = answering [[(''extversion'', SqlText ''0.5.0'')]],
      vectorExt = VECTOR, indexName = indexNames\<rparr>
     VECTOR (Some (Version 0 7 0)) [] =
   (Inr \<lparr>restartRequired = False\<rparr>,
    [Query ''SELECT extversion FROM pg_extension WHERE extname = $1'' [PText ''vector''],
     Query (''ALTER EXTENSION vector UPDATE TO '0.7.0-alpha.2'' @ [CHR 0x27]) [],
     Query ''REINDEX INDEX clip_index'' [],
     Query ''REINDEX INDEX face_index'' []])
   \<and> toString (Version 0 7 0) = ''0.7.0''
   \<and> updateExtension
       \<lparr>dataSource = answering [[(''extversion'', SqlText ''0.5.0'')]],
        vectorExt = VECTOR, indexName = indexNames\<rparr>
       VECTOR (Some (Version 0 7 0)) [] =
     (Inr (), [Query (''ALTER EXTENSION vector UPDATE TO '0.7.0'' @ [CHR 0x27]) []])"
proof -
  have "getExtensionVersion
          \<lparr>dataSource = answering [[(''extversion'', SqlText ''0.5.0'')]],
           vectorExt = VECTOR, indexName = indexNames\<rparr> VECTOR [] =
        (Inr (Some (Version 0 5 0)),
         [Query ''SELECT extversion FROM pg_extension WHERE extname = $1'' [PText ''vector'']])"
    using getExtensionVersion_answering [OF fromString_examples(1), of VECTOR indexNames VECTOR "[]"]
    by (simp add: isEqual_def)
  then show ?thesis
    by (simp add: updateVectorExtension_def upgradeStatement_def updateExtension_def
          andThen_def query_def returns_def answering_def isOlderThan_def toString_examples
          reindex_def tryCatch_def indexNames_def)
qed

text \<open>
  Claim C3. When the extension is pgvecto.rs (\<open>VECTORS\<close>), a target version is given and
  the installed version is older than it by a minor or a major step, then, every statement
  being accepted by the database, \<^verbatim>\<open>updateVectorExtension\<close> sends after the version lookup
  exactly: the workaround (create the schema \<open>vectors\<close> if absent, rewrite the catalog
  version of the extension, set its relocatable flag, move it into the schema, clear the
  flag), then the upgrade statement, then the repair procedure \<open>pgvectors_upgrade()\<close>; and
  it returns \<open>restartRequired = True\<close>.
\<close>

theorem updateVectorExtension_vectors_upgrade:
  assumes installed: "getExtensionVersion c VECTORS h = (Inr (Some curVersion), h1)"
    and delta: "VersionType_value (isOlderThan curVersion version) \<ge> VersionType_value MINOR"
    and workaround: "workaround =
      [Query ''CREATE SCHEMA IF NOT EXISTS vectors'' [],
       Query ''UPDATE pg_catalog.pg_extension SET extversion = $1 WHERE extname = $2''
         [PText (toString curVersion), PText ''vectors''],
       Query ''UPDATE pg_catalog.pg_extension SET extrelocatable = true WHERE extname = $1''
         [PText ''vectors''],
       Query ''ALTER EXTENSION vectors SET SCHEMA vectors'' [],
       Query ''UPDATE pg_catalog.pg_extension SET extrelocatable = false WHERE extname = $1''
         [PText ''vectors'']]"
    and rest: "rest = [Query (upgradeStatement VECTORS (Some version)) [],
                       Query ''SELECT pgvectors_upgrade()'' []]"
    and ok: "accepts (dataSource c) h1 (workaround @ rest)"
  shows "updateVectorExtension c VECTORS (Some version) h =
           (Inr \<lparr>restartRequired = True\<rparr>, h1 @ workaround @ rest)"
proof -
  have schema: "updateVectorsSchema c curVersion h1 = (Inr (), h1 @ workaround)"
    using ok unfolding workaround by (rule updateVectorsSchema_accepted)
  have tail: "accepts (dataSource c) (h1 @ workaround) rest"
    using ok unfolding workaround rest
    by (auto split: response.splits)
  show ?thesis
    using installed delta schema tail unfolding rest
    by (auto simp: updateVectorExtension_def andThen_def query_def returns_def
             split: response.splits)
qed

text \<open>The scenario of pgvecto.rs 0.2.0 upgraded to 0.3.0.\<close>

theorem updateVectorExtension_vectors_upgrade_witness:
  "updateVectorExtension
     \<lparr>dataSource = answering [[(''extversion'', SqlText ''0.2.0'')]],
      vectorExt = VECTORS, indexName = indexNames\<rparr>
     VECTORS (Some (Version 0 3 0)) [] =
   (Inr \<lparr>restartRequired = True\<rparr>,
    [Query ''SELECT extversion FROM pg_extension WHERE extname = $1'' [PText ''vectors''],
     Query ''CREATE SCHEMA IF NOT EXISTS vectors'' [],
     Query ''UPDATE pg_catalog.pg_extension SET extversion = $1 WHERE extname = $2''
       [PText ''0.2.0'', PText ''vectors''],
     Query ''UPDATE pg_catalog.pg_extension SET extrelocatable = true WHERE extname = $1''
       [PText ''vectors''],
     Query ''ALTER EXTENSION vectors SET SCHEMA vectors'' [],
     Query ''UPDATE pg_catalog.pg_extension SET extrelocatable = false WHERE extname = $1''
       [PText ''vectors''],
     Query (''ALTER EXTENSION vectors UPDATE TO '0.3.0-alpha.2'' @ [CHR 0x27]) [],
     Query ''SELECT pgvectors_upgrade()'' []])"
proof -
  let ?c = "\<lparr>dataSource = answering [[(''extversion'', SqlText ''0.2.0'')]],
             vectorExt = VECTORS, indexName = indexNames\<rparr>"
  have installed: "getExtensionVersion ?c VECTORS [] =
        (Inr (Some (Version 0 2 0)),
         [Query ''SELECT extversion FROM pg_extension WHERE extname = $1'' [PText ''vectors'']])"
    using getExtensionVersion_answering [OF fromString_examples(2), of VECTORS indexNames VECTORS "[]"]
    by (simp add: isEqual_def)
  have delta: "VersionType_value (isOlderThan (Version 0 2 0) (Version 0 3 0))
                 \<ge> VersionType_value MINOR"
    by (simp add: isOlderThan_def)
  have ok: "accepts (dataSource ?c)
              [Query ''SELECT extversion FROM pg_extension WHERE extname = $1'' [PText ''vectors'']]
              ([Query ''CREATE SCHEMA IF NOT EXISTS vectors'' [],
                Query ''UPDATE pg_catalog.pg_extension SET extversion = $1 WHERE extname = $2''
                  [PText (toString (Version 0 2 0)), PText ''vectors''],
                Query ''UPDATE pg_catalog.pg_extension SET extrelocatable = true WHERE extname = $1''
                  [PText ''vectors''],
                Query ''ALTER EXTENSION vectors SET SCHEMA vectors'' [],
                Query ''UPDATE pg_catalog.pg_extension SET extrelocatable = false WHERE extname = $1''
                  [PText ''vectors'']] @
               [Query (upgradeStatement VECTORS (Some (Version 0 3 0))) [],
                Query ''SELECT pgvectors_upgrade()'' []])"
    by (simp add: answering_def)
  show ?thesis
    using updateVectorExtension_vectors_upgrade [OF installed delta refl refl ok]
    by (simp add: upgradeStatement_def toString_examples)
qed

text \<open>
  Claim C4. (a) When the delta is not minor-or-major (no target version, or the installed
  version is not older than the target by a minor or major step), \<^verbatim>\<open>updateVectorExtension\<close>
  sends nothing but the upgrade statement after the version lookup and returns
  \<open>restartRequired = False\<close>. (b) When pgvector (\<open>VECTOR\<close>) is upgraded across a minor or
  major step, the upgrade statement is followed by the rebuild of the CLIP index and the
  rebuild of the face index, and the result is \<open>restartRequired = False\<close>. Both hold for
  every database that accepts the statements named.
\<close>

theorem updateVectorExtension_no_further_action:
  "(getExtensionVersion c extension h = (Inr (Some curVersion), h1)
      \<and> \<not> (case version of
               None \<Rightarrow> False
             | Some v \<Rightarrow> VersionType_value (isOlderThan curVersion v) \<ge> VersionType_value MINOR)
      \<and> accepts (dataSource c) h1 [Query (upgradeStatement extension version) []]
    \<longrightarrow> updateVectorExtension c extension version h =
          (Inr \<lparr>restartRequired = False\<rparr>,
           h1 @ [Query (upgradeStatement extension version) []]))
   \<and>
   (getExtensionVersion c VECTOR h = (Inr (Some curVersion), h1)
      \<and> VersionType_value (isOlderThan curVersion target) \<ge> VersionType_value MINOR
      \<and> accepts (dataSource c) h1
           [Query (upgradeStatement VECTOR (Some target)) [],
            Query (''REINDEX INDEX '' @ indexName c CLIP) [],
            Query (''REINDEX INDEX '' @ indexName c FACE) []]
    \<longrightarrow> updateVectorExtension c VECTOR (Some target) h =
          (Inr \<lparr>restartRequired = False\<rparr>,
           h1 @ [Query (upgradeStatement VECTOR (Some target)) [],
                 Query (''REINDEX INDEX '' @ indexName c CLIP) [],
                 Query (''REINDEX INDEX '' @ indexName c FACE) []]))"
proof (intro conjI impI)
  assume a: "getExtensionVersion c extension h = (Inr (Some curVersion), h1)
      \<and> \<not> (case version of
               None \<Rightarrow> False
             | Some v \<Rightarrow> VersionType_value (isOlderThan curVersion v) \<ge> VersionType_value MINOR)
      \<and> accepts (dataSource c) h1 [Query (upgradeStatement extension version) []]"
  then show "updateVectorExtension c extension version h =
          (Inr \<lparr>restartRequired = False\<rparr>,
           h1 @ [Query (upgradeStatement extension version) []])"
    by (auto simp: updateVectorExtension_def andThen_def query_def returns_def
             split: response.splits option.splits)
next
  let ?ddl = "Query (upgradeStatement VECTOR (Some target)) []"
  let ?clip = "Query (''REINDEX INDEX '' @ indexName c CLIP) []"
  let ?face = "Query (''REINDEX INDEX '' @ indexName c FACE) []"
  assume a: "getExtensionVersion c VECTOR h = (Inr (Some curVersion), h1)
      \<and> VersionType_value (isOlderThan curVersion target) \<ge> VersionType_value MINOR
      \<and> accepts (dataSource c) h1 [?ddl, ?clip, ?face]"
  then have ddl: "\<exists>rs. query c (upgradeStatement VECTOR (Some target)) [] h1 = (Inr rs, h1 @ [?ddl])"
    by (auto simp: query_def split: response.splits)
  from a have "accepts (dataSource c) (h1 @ [?ddl]) [?clip, ?face]" by simp
  then have clip: "reindex c CLIP (h1 @ [?ddl]) = (Inr (), h1 @ [?ddl] @ [?clip])"
    using reindex_accepted [of c "h1 @ [?ddl]" CLIP "[?face]"] by simp
  from a have "accepts (dataSource c) (h1 @ [?ddl] @ [?clip]) [?face]" by simp
  then have face: "reindex c FACE (h1 @ [?ddl] @ [?clip]) = (Inr (), h1 @ [?ddl] @ [?clip] @ [?face])"
    using reindex_accepted [of c "h1 @ [?ddl] @ [?clip]" FACE "[]"] by simp
  from a ddl clip face
  show "updateVectorExtension c VECTOR (Some target) h =
          (Inr \<lparr>restartRequired = False\<rparr>, h1 @ [?ddl, ?clip, ?face])"
    by (auto simp: updateVectorExtension_def andThen_def returns_def)
qed

text \<open>pgvector 0.5.0 upgraded to 0.5.1 (a patch step), and to 0.7.0 (a minor step).\<close>

theorem updateVectorExtension_no_further_action_witness:
  "updateVectorExtension
     \<lparr>dataSource = answering [[(''extversion'', SqlText ''0.5.0'')]],
      vectorExt = VECTOR, indexName = indexNames\<rparr>
     VECTOR (Some (Version 0 5 1)) [] =
   (Inr \<lparr>restartRequired = False\<rparr>,
    [Query ''SELECT extversion FROM pg_extension WHERE extname = $1'' [PText ''vector''],
     Query (upgradeStatement VECTOR (Some (Version 0 5 1))) []])
   \<and>
   updateVectorExtension
     \<lparr>dataSource = answering [[(''extversion'', SqlText ''0.5.0'')]],
      vectorExt = VECTOR, indexName = indexNames\<rparr>
     VECTOR (Some (Version 0 7 0)) [] =
   (Inr \<lparr>restartRequired = False\<rparr>,
    [Query ''SELECT extversion FROM pg_extension WHERE extname = $1'' [PText ''vector''],
     Query (upgradeStatement VECTOR (Some (Version 0 7 0))) [],
     Query ''REINDEX INDEX clip_index'' [],
     Query ''REINDEX INDEX face_index'' []])"
proof -
  let ?c = "\<lparr>dataSource = answering [[(''extversion'', SqlText ''0.5.0'')]],
             vectorExt = VECTOR, indexName = indexNames\<rparr>"
  let ?h1 = "[Query ''SELECT extversion FROM pg_extension WHERE extname = $1'' [PText ''vector'']]"
  have installed: "getExtensionVersion ?c VECTOR [] = (Inr (Some (Version 0 5 0)), ?h1)"
    using getExtensionVersion_answering [OF fromString_examples(1), of VECTOR indexNames VECTOR "[]"]
    by (simp add: isEqual_def)
  have patch_step: "\<not> (case Some (Version 0 5 1) of
               None \<Rightarrow> False
             | Some v \<Rightarrow> VersionType_value (isOlderThan (Version 0 5 0) v) \<ge> VersionType_value MINOR)"
    by (simp add: isOlderThan_def)
  have minor_step: "VersionType_value (isOlderThan (Version 0 5 0) (Version 0 7 0))
                      \<ge> VersionType_value MINOR"
    by (simp add: isOlderThan_def)
  have ok1: "accepts (dataSource ?c) ?h1 [Query (upgradeStatement VECTOR (Some (Version 0 5 1))) []]"
    by (simp add: answering_def)
  have ok2: "accepts (dataSource ?c) ?h1
           [Query (upgradeStatement VECTOR (Some (Version 0 7 0))) [],
            Query (''REINDEX INDEX '' @ indexName ?c CLIP) [],
            Query (''REINDEX INDEX '' @ indexName ?c FACE) []]"
    by (simp add: answering_def)
  from updateVectorExtension_no_further_action
         [of ?c VECTOR "[]" "Version 0 5 0" ?h1 "Some (Version 0 5 1)" "Version 0 7 0"]
       installed patch_step minor_step ok1 ok2
  show ?thesis
    by (simp add: indexNames_def)
qed

text \<open>
  Claim C7. When the lookup of the installed version returns absent,
  \<^verbatim>\<open>updateVectorExtension\<close> throws the error \<open><name> extension is not installed\<close>, and the
  only statement sent to the database by the call is the lookup itself (a \<open>SELECT\<close>): no
  statement that changes the database is sent.
\<close>

theorem updateVectorExtension_not_installed:
  assumes "getExtensionVersion c extension h = (Inr None, h')"
  shows "updateVectorExtension c extension version h =
           (Inl (Error (extName extension @ '' extension is not installed'')), h')
         \<and> h' = h @ [Query ''SELECT extversion FROM pg_extension WHERE extname = $1''
                        [PText (DatabaseExtension_value extension)]]"
proof -
  have "h' = snd (getExtensionVersion c extension h)" using assms by simp
  then have hist: "h' = h @ [Query ''SELECT extversion FROM pg_extension WHERE extname = $1''
                        [PText (DatabaseExtension_value extension)]]"
    by (simp only: getExtensionVersion_history)
  have "updateVectorExtension c extension version h =
           (Inl (Error (extName extension @ '' extension is not installed'')), h')"
    using assms by (simp add: updateVectorExtension_def andThen_def throws_def)
  with hist show ?thesis by simp
qed

text \<open>A database in which \<open>pg_extension\<close> has no row for pgvector.\<close>

theorem updateVectorExtension_not_installed_witness:
  "getExtensionVersion \<lparr>dataSource = answering [], vectorExt = VECTOR, indexName = indexNames\<rparr>
     VECTOR [] =
   (Inr None, [Query ''SELECT extversion FROM pg_extension WHERE extname = $1'' [PText ''vector'']])
   \<and>
   updateVectorExtension \<lparr>dataSource = answering [], vectorExt = VECTOR, indexName = indexNames\<rparr>
     VECTOR (Some (Version 0 7 0)) [] =
   (Inl (Error ''pgvector extension is not installed''),
    [Query ''SELECT extversion FROM pg_extension WHERE extname = $1'' [PText ''vector'']])"
proof -
  let ?c = "\<lparr>dataSource = answering [], vectorExt = VECTOR, indexName = indexNames\<rparr>"
  have absent: "getExtensionVersion ?c VECTOR [] =
      (Inr None, [Query ''SELECT extversion FROM pg_extension WHERE extname = $1'' [PText ''vector'']])"
    by (simp add: getExtensionVersion_def andThen_def query_def returns_def answering_def
          firstCell_def)
  from updateVectorExtension_not_installed [OF absent, of "Some (Version 0 7 0)"] absent
  show ?thesis by simp
qed

text \<open>
  Claim C10. With no target version, whatever the extension and whatever version is
  installed, \<^verbatim>\<open>updateVectorExtension\<close> sends after the version lookup only the statement
  \<open>ALTER EXTENSION <extension> UPDATE\<close>, without a \<open>TO\<close> clause, and returns
  \<open>restartRequired = False\<close>: no workaround, no repair procedure, no rebuild of an index.
\<close>

theorem updateVectorExtension_without_version:
  assumes "getExtensionVersion c extension h = (Inr (Some curVersion), h1)"
    and "accepts (dataSource c) h1
           [Query (''ALTER EXTENSION '' @ DatabaseExtension_value extension @ '' UPDATE'') []]"
  shows "updateVectorExtension c extension None h =
           (Inr \<lparr>restartRequired = False\<rparr>,
            h1 @ [Query (''ALTER EXTENSION '' @ DatabaseExtension_value extension @ '' UPDATE'') []])"
  using assms
  by (auto simp: updateVectorExtension_def upgradeStatement_def andThen_def query_def returns_def
           split: response.splits)

text \<open>pgvecto.rs 0.2.0 installed, no target version.\<close>

theorem updateVectorExtension_without_version_witness:
  "updateVectorExtension
     \<lparr>dataSource = answering [[(''extversion'', SqlText ''0.2.0'')]],
      vectorExt = VECTORS, indexName = indexNames\<rparr>
     VECTORS None [] =
   (Inr \<lparr>restartRequired = False\<rparr>,
    [Query ''SELECT extversion FROM pg_extension WHERE extname = $1'' [PText ''vectors''],
     Query ''ALTER EXTENSION vectors UPDATE'' []])"
proof -
  let ?c = "\<lparr>dataSource = answering [[(''extversion'', SqlText ''0.2.0'')]],
             vectorExt = VECTORS, indexName = indexNames\<rparr>"
  let ?h1 = "[Query ''SELECT extversion FROM pg_extension WHERE extname = $1'' [PText ''vectors'']]"
  have installed: "getExtensionVersion ?c VECTORS [] = (Inr (Some (Version 0 2 0)), ?h1)"
    using getExtensionVersion_answering [OF fromString_examples(2), of VECTORS indexNames VECTORS "[]"]
    by (simp add: isEqual_def)
  have ok: "accepts (dataSource ?c) ?h1
           [Query (''ALTER EXTENSION '' @ DatabaseExtension_value VECTORS @ '' UPDATE'') []]"
    by (simp add: answering_def)
  from updateVectorExtension_without_version [OF installed ok]
  show ?thesis by simp
qed

section \<open>Extension names\<close>

text \<open>
  Against claim C9 as stated: the canonical names of \<open>cube\<close> and \<open>earthdistance\<close> are
  their enumeration keys.
\<close>

theorem extName_cube_is_its_key:
  "extName CUBE = DatabaseExtension_value CUBE
   \<and> extName EARTH_DISTANCE = DatabaseExtension_value EARTH_DISTANCE"
  by simp

text \<open>
  Claim C9, amended. The canonical name of an extension differs from its enumeration key
  exactly for the two vector extensions, \<open>vector\<close> (pgvector) and \<open>vectors\<close> (pgvecto.rs).
\<close>

theorem extName_differs_for_vector_extensions:
  "(extName e \<noteq> DatabaseExtension_value e) = (e = VECTOR \<or> e = VECTORS)"
  by (cases e) simp_all

theorem extName_differs_for_vector_extensions_witness:
  "extName VECTOR \<noteq> DatabaseExtension_value VECTOR
   \<and> extName VECTORS \<noteq> DatabaseExtension_value VECTORS"
  using extName_differs_for_vector_extensions [of VECTOR]
        extName_differs_for_vector_extensions [of VECTORS]
  by simp

section \<open>withLock\<close>

text \<open>
  Claim C2. For every lock and every operation, whatever the operation does:
  \<^verbatim>\<open>withLock\<close> first takes the in-process mutex of the lock's name, then creates the dedicated
  query runner and takes the advisory lock through it; the operation runs from exactly that
  history; and whether the operation returned or threw (\<open>r\<close> is either), what follows the
  operation is exactly the advisory unlock, the release of the query runner and the release
  of the mutex, in this order. When the two releases are accepted, the outcome of
  \<^verbatim>\<open>withLock\<close> is the outcome of the operation. When the advisory lock itself fails, the
  operation does not run and the same three releases follow.
\<close>

theorem withLock_order:
  assumes held: "held = h @ [MutexAcquire (DatabaseLock_name lock), CreateQueryRunner]"
    and lockq: "lockq = RunnerQuery ''SELECT pg_advisory_lock($1)'' [PNum (DatabaseLock_value lock)]"
    and unlockq: "unlockq = RunnerQuery ''SELECT pg_advisory_unlock($1)'' [PNum (DatabaseLock_value lock)]"
    and releases: "releases = [unlockq, RunnerRelease, MutexRelease (DatabaseLock_name lock)]"
  shows "(accepts (dataSource c) held [lockq] \<and> callback (held @ [lockq]) = (r, h')
            \<longrightarrow> snd (withLock c lock callback h) = h' @ releases
              \<and> (accepts (dataSource c) h' [unlockq, RunnerRelease]
                    \<longrightarrow> fst (withLock c lock callback h) = r))
       \<and> (dataSource c held lockq = Failed msg
            \<longrightarrow> snd (withLock c lock callback h) = held @ [lockq] @ releases
              \<and> (accepts (dataSource c) (held @ [lockq]) [unlockq, RunnerRelease]
                    \<longrightarrow> fst (withLock c lock callback h) = Inl (Error msg)))"
  unfolding held lockq unlockq releases
  by (auto simp: withLock_def asyncLock_acquire_def createQueryRunner_def andThen_def
        tryFinally_def acquireLock_def releaseLock_def runnerQuery_def runnerRelease_def
        returns_def
      split: response.splits prod.splits sum.splits)

text \<open>An operation that logs and throws, one that logs and returns, and an advisory lock
  that fails.\<close>

theorem withLock_order_witness:
  "withLock \<lparr>dataSource = answering [], vectorExt = VECTORS, indexName = indexNames\<rparr>
     CLIPDimSize (andThen (warn ''operation'') (\<lambda>_. throws (Error ''boom'') :: nat io)) [] =
   (Inl (Error ''boom''),
    [MutexAcquire ''CLIPDimSize'', CreateQueryRunner,
     RunnerQuery ''SELECT pg_advisory_lock($1)'' [PNum 512],
     LogWarn ''operation'',
     RunnerQuery ''SELECT pg_advisory_unlock($1)'' [PNum 512],
     RunnerRelease, MutexRelease ''CLIPDimSize''])
   \<and>
   withLock \<lparr>dataSource = answering [], vectorExt = VECTORS, indexName = indexNames\<rparr>
     GeodataImport (andThen (warn ''operation'') (\<lambda>_. returns (7 :: nat))) [] =
   (Inr 7,
    [MutexAcquire ''GeodataImport'', CreateQueryRunner,
     RunnerQuery ''SELECT pg_advisory_lock($1)'' [PNum 100],
     LogWarn ''operation'',
     RunnerQuery ''SELECT pg_advisory_unlock($1)'' [PNum 100],
     RunnerRelease, MutexRelease ''GeodataImport''])
   \<and>
   withLock \<lparr>dataSource = failingOn (RunnerQuery ''SELECT pg_advisory_lock($1)'' [PNum 420])
                              ''connection lost'' [],
             vectorExt = VECTORS, indexName = indexNames\<rparr>
     StorageTemplateMigration (andThen (warn ''operation'') (\<lambda>_. returns (7 :: nat))) [] =
   (Inl (Error ''connection lost''),
    [MutexAcquire ''StorageTemplateMigration'', CreateQueryRunner,
     RunnerQuery ''SELECT pg_advisory_lock($1)'' [PNum 420],
     RunnerQuery ''SELECT pg_advisory_unlock($1)'' [PNum 420],
     RunnerRelease, MutexRelease ''StorageTemplateMigration''])"
proof -
  let ?c = "\<lparr>dataSource = answering [], vectorExt = VECTORS, indexName = indexNames\<rparr>"
  let ?d = "\<lparr>dataSource = failingOn (RunnerQuery ''SELECT pg_advisory_lock($1)'' [PNum 420])
                              ''connection lost'' [],
             vectorExt = VECTORS, indexName = indexNames\<rparr>"
  let ?throwing = "andThen (warn ''operation'') (\<lambda>_. throws (Error ''boom'') :: nat io)"
  let ?returning = "andThen (warn ''operation'') (\<lambda>_. returns (7 :: nat))"
  have 1: "fst (withLock ?c CLIPDimSize ?throwing []) = Inl (Error ''boom'')
         \<and> snd (withLock ?c CLIPDimSize ?throwing []) =
             [MutexAcquire ''CLIPDimSize'', CreateQueryRunner,
              RunnerQuery ''SELECT pg_advisory_lock($1)'' [PNum 512],
              LogWarn ''operation'',
              RunnerQuery ''SELECT pg_advisory_unlock($1)'' [PNum 512],
              RunnerRelease, MutexRelease ''CLIPDimSize'']"
    using withLock_order [where c = ?c and h = "[]" and lock = CLIPDimSize
        and callback = ?throwing and r = "Inl (Error ''boom'')"
        and h' = "[MutexAcquire ''CLIPDimSize'', CreateQueryRunner,
          RunnerQuery ''SELECT pg_advisory_lock($1)'' [PNum 512], LogWarn ''operation'']",
        OF refl refl refl refl]
    by (simp add: answering_def andThen_def warn_def throws_def)
  have 2: "fst (withLock ?c GeodataImport ?returning []) = Inr 7
         \<and> snd (withLock ?c GeodataImport ?returning []) =
             [MutexAcquire ''GeodataImport'', CreateQueryRunner,
              RunnerQuery ''SELECT pg_advisory_lock($1)'' [PNum 100],
              LogWarn ''operation'',
              RunnerQuery ''SELECT pg_advisory_unlock($1)'' [PNum 100],
              RunnerRelease, MutexRelease ''GeodataImport'']"
    using withLock_order [where c = ?c and h = "[]" and lock = GeodataImport
        and callback = ?returning and r = "Inr 7"
        and h' = "[MutexAcquire ''GeodataImport'', CreateQueryRunner,
          RunnerQuery ''SELECT pg_advisory_lock($1)'' [PNum 100], LogWarn ''operation'']",
        OF refl refl refl refl]
    by (simp add: answering_def andThen_def warn_def returns_def)
  have 3: "fst (withLock ?d StorageTemplateMigration ?returning []) = Inl (Error ''connection lost'')
         \<and> snd (withLock ?d StorageTemplateMigration ?returning []) =
             [MutexAcquire ''StorageTemplateMigration'', CreateQueryRunner,
              RunnerQuery ''SELECT pg_advisory_lock($1)'' [PNum 420],
              RunnerQuery ''SELECT pg_advisory_unlock($1)'' [PNum 420],
              RunnerRelease, MutexRelease ''StorageTemplateMigration'']"
    using withLock_order [where c = ?d and h = "[]" and lock = StorageTemplateMigration
        and callback = ?returning and msg = "''connection lost''",
        OF refl refl refl refl]
    by (simp add: failingOn_def)
  from 1 2 3 show ?thesis
    by (simp add: prod_eq_iff)
qed

section \<open>reindex and shouldReindex\<close>

text \<open>
  Claim C5. For every index, \<^verbatim>\<open>reindex\<close> first sends the rebuild of the index, and is done
  when the database accepts it. When the rebuild fails and the configured extension is
  pgvecto.rs, it logs a warning and runs, inside one transaction, the alter of the
  embedding column of the index's table to \<open>real[]\<close>, the alter back to \<open>vector\<close> and
  the rebuild again; the transaction is committed when the retry is accepted, and when the
  retry fails its error is thrown (the transaction rolled back). This holds for every
  failure of the first rebuild, so also for one with the known corruption signature.
  When the configured extension is not pgvecto.rs, the failure of the rebuild is thrown
  on and nothing else is sent.
\<close>

theorem reindex_recovery:
  assumes rebuild: "rebuild = Query (''REINDEX INDEX '' @ indexName c index) []"
    and tbl: "tbl = (if index = CLIP then ''smart_search'' else ''asset_faces'')"
    and widen: "widen = Query (''ALTER TABLE '' @ tbl @ '' ALTER COLUMN embedding SET DATA TYPE real[]'') []"
    and narrow: "narrow = Query (''ALTER TABLE '' @ tbl @ '' ALTER COLUMN embedding SET DATA TYPE vector'') []"
    and h0: "h0 = h @ [rebuild,
                      LogWarn (''Could not reindex index '' @ indexName c index @
                               ''. Attempting to auto-fix.''),
                      TxBegin]"
  shows "(\<exists>rest. snd (reindex c index h) = h @ rebuild # rest)
       \<and> (accepts (dataSource c) h [rebuild] \<longrightarrow> reindex c index h = (Inr (), h @ [rebuild]))
       \<and> (dataSource c h rebuild = Failed msg \<and> vectorExt c = VECTORS
            \<and> accepts (dataSource c) h0 [widen, narrow, rebuild]
          \<longrightarrow> reindex c index h = (Inr (), h0 @ [widen, narrow, rebuild, TxCommit]))
       \<and> (dataSource c h rebuild = Failed msg \<and> vectorExt c = VECTORS
            \<and> accepts (dataSource c) h0 [widen, narrow]
            \<and> dataSource c (h0 @ [widen, narrow]) rebuild = Failed msg'
          \<longrightarrow> reindex c index h = (Inl (Error msg'), h0 @ [widen, narrow, rebuild, TxRollback]))
       \<and> (dataSource c h rebuild = Failed msg \<and> vectorExt c \<noteq> VECTORS
          \<longrightarrow> reindex c index h = (Inl (Error msg), h @ [rebuild]))"
proof -
  obtain R W A1 A2 where
    R: "R = ''REINDEX INDEX '' @ indexName c index"
    and W: "W = ''Could not reindex index '' @ indexName c index @ ''. Attempting to auto-fix.''"
    and A1: "A1 = ''ALTER TABLE '' @ (if index = CLIP then ''smart_search'' else ''asset_faces'') @
               '' ALTER COLUMN embedding SET DATA TYPE real[]''"
    and A2: "A2 = ''ALTER TABLE '' @ (if index = CLIP then ''smart_search'' else ''asset_faces'') @
               '' ALTER COLUMN embedding SET DATA TYPE vector''"
    by blast
  have ev: "rebuild = Query R []" "widen = Query A1 []" "narrow = Query A2 []"
    "h0 = h @ [Query R [], LogWarn W, TxBegin]"
    unfolding rebuild widen narrow h0 tbl R W A1 A2 by (rule refl)+
  show ?thesis
    unfolding ev reindex_unfolded [OF R W A1 A2]
    by (auto simp: tryCatch_def andThen_def query_def returns_def throws_def warn_def
          transaction_def
        split: response.splits)
qed

text \<open>
  The rebuild of the face index: failing once under pgvecto.rs (the recovery succeeds),
  failing every time under pgvecto.rs (the error of the retry is thrown), failing under
  pgvector (thrown on), and accepted at once.
\<close>

theorem reindex_recovery_witness:
  "reindex \<lparr>dataSource = failingOnce (Query ''REINDEX INDEX face_index'' []) ''corrupted'' [],
            vectorExt = VECTORS, indexName = indexNames\<rparr> FACE [] =
   (Inr (),
    [Query ''REINDEX INDEX face_index'' [],
     LogWarn ''Could not reindex index face_index. Attempting to auto-fix.'',
     TxBegin,
     Query ''ALTER TABLE asset_faces ALTER COLUMN embedding SET DATA TYPE real[]'' [],
     Query ''ALTER TABLE asset_faces ALTER COLUMN embedding SET DATA TYPE vector'' [],
     Query ''REINDEX INDEX face_index'' [],
     TxCommit])
   \<and>
   reindex \<lparr>dataSource = failingOn (Query ''REINDEX INDEX face_index'' []) ''corrupted'' [],
            vectorExt = VECTORS, indexName = indexNames\<rparr> FACE [] =
   (Inl (Error ''corrupted''),
    [Query ''REINDEX INDEX face_index'' [],
     LogWarn ''Could not reindex index face_index. Attempting to auto-fix.'',
     TxBegin,
     Query ''ALTER TABLE asset_faces ALTER COLUMN embedding SET DATA TYPE real[]'' [],
     Query ''ALTER TABLE asset_faces ALTER COLUMN embedding SET DATA TYPE vector'' [],
     Query ''REINDEX INDEX face_index'' [],
     TxRollback])
   \<and>
   reindex \<lparr>dataSource = failingOn (Query ''REINDEX INDEX face_index'' []) ''corrupted'' [],
            vectorExt = VECTOR, indexName = indexNames\<rparr> FACE [] =
   (Inl (Error ''corrupted''), [Query ''REINDEX INDEX face_index'' []])
   \<and>
   reindex \<lparr>dataSource = answering [], vectorExt = VECTORS, indexName = indexNames\<rparr> FACE [] =
   (Inr (), [Query ''REINDEX INDEX face_index'' []])"
proof -
  let ?q = "Query ''REINDEX INDEX face_index'' []"
  let ?once = "\<lparr>dataSource = failingOnce ?q ''corrupted'' [],
                vectorExt = VECTORS, indexName = indexNames\<rparr>"
  let ?always = "\<lparr>dataSource = failingOn ?q ''corrupted'' [],
                  vectorExt = VECTORS, indexName = indexNames\<rparr>"
  let ?pgvector = "\<lparr>dataSource = failingOn ?q ''corrupted'' [],
                    vectorExt = VECTOR, indexName = indexNames\<rparr>"
  let ?fine = "\<lparr>dataSource = answering [], vectorExt = VECTORS, indexName = indexNames\<rparr>"
  note defs = failingOnce_def failingOn_def answering_def indexNames_def
  from reindex_recovery [where c = ?once and index = FACE and h = "[]" and msg = "''corrupted''",
                         OF refl refl refl refl refl]
  have 1: "reindex ?once FACE [] =
     (Inr (),
      [?q, LogWarn ''Could not reindex index face_index. Attempting to auto-fix.'', TxBegin,
       Query ''ALTER TABLE asset_faces ALTER COLUMN embedding SET DATA TYPE real[]'' [],
       Query ''ALTER TABLE asset_faces ALTER COLUMN embedding SET DATA TYPE vector'' [],
       ?q, TxCommit])"
    by (simp add: defs)
  from reindex_recovery [where c = ?always and index = FACE and h = "[]" and msg = "''corrupted''"
                           and msg' = "''corrupted''",
                         OF refl refl refl refl refl]
  have 2: "reindex ?always FACE [] =
     (Inl (Error ''corrupted''),
      [?q, LogWarn ''Could not reindex index face_index. Attempting to auto-fix.'', TxBegin,
       Query ''ALTER TABLE asset_faces ALTER COLUMN embedding SET DATA TYPE real[]'' [],
       Query ''ALTER TABLE asset_faces ALTER COLUMN embedding SET DATA TYPE vector'' [],
       ?q, TxRollback])"
    by (simp add: defs)
  from reindex_recovery [where c = ?pgvector and index = FACE and h = "[]" and msg = "''corrupted''",
                         OF refl refl refl refl refl]
  have 3: "reindex ?pgvector FACE [] = (Inl (Error ''corrupted''), [?q])"
    by (simp add: defs)
  from reindex_recovery [where c = ?fine and index = FACE and h = "[]",
                         OF refl refl refl refl refl]
  have 4: "reindex ?fine FACE [] = (Inr (), [?q])"
    by (simp add: defs)
  from 1 2 3 4 show ?thesis by simp
qed

text \<open>
  Against claim C6 as stated: with pgvector configured and a database whose status view
  reports \<open>UPGRADE\<close> for the index, \<^verbatim>\<open>shouldReindex\<close> returns false, and it does not send
  the status query at all.
\<close>

theorem shouldReindex_pgvector_ignores_status:
  "dataSource \<lparr>dataSource = answering [[(''idx_status'', SqlText ''UPGRADE'')]],
               vectorExt = VECTOR, indexName = indexNames\<rparr> []
     (Query (''\<newline>          SELECT idx_status'' @
             ''\<newline>          FROM pg_vector_index_stat'' @
             ''\<newline>          WHERE indexname = $1'') [PText ''clip_index'']) =
   Rows [[(''idx_status'', SqlText ''UPGRADE'')]]
   \<and>
   shouldReindex \<lparr>dataSource = answering [[(''idx_status'', SqlText ''UPGRADE'')]],
                  vectorExt = VECTOR, indexName = indexNames\<rparr> CLIP [] =
   (Inr False, [])"
  by (simp add: shouldReindex_def returns_def answering_def)

text \<open>
  Claim C6, amended. When the configured extension is pgvecto.rs, \<^verbatim>\<open>shouldReindex\<close> sends
  the status query for the index and: returns whether the first row reports the status
  \<open>UPGRADE\<close> when the query is answered; returns true when the query fails with a message
  that includes \<open>index is not existing\<close>; throws the error of the query on every other
  failure. When the configured extension is not pgvecto.rs, it returns false and sends
  nothing.
\<close>

theorem shouldReindex_by_configuration:
  assumes status: "status = Query (''\<newline>          SELECT idx_status'' @
                                   ''\<newline>          FROM pg_vector_index_stat'' @
                                   ''\<newline>          WHERE indexname = $1'')
                              [PText (indexName c name)]"
  shows "(vectorExt c = VECTORS \<and> dataSource c h status = Rows res
            \<longrightarrow> shouldReindex c name h =
                  (Inr (firstCell res ''idx_status'' = SqlText ''UPGRADE''), h @ [status]))
       \<and> (vectorExt c = VECTORS \<and> dataSource c h status = Failed msg
            \<and> str_includes msg ''index is not existing''
            \<longrightarrow> shouldReindex c name h = (Inr True, h @ [status]))
       \<and> (vectorExt c = VECTORS \<and> dataSource c h status = Failed msg
            \<and> \<not> str_includes msg ''index is not existing''
            \<longrightarrow> shouldReindex c name h = (Inl (Error msg), h @ [status]))
       \<and> (vectorExt c \<noteq> VECTORS \<longrightarrow> shouldReindex c name h = (Inr False, h))"
  unfolding status
  by (auto simp: shouldReindex_def tryCatch_def andThen_def query_def returns_def throws_def
      split: response.splits)

text \<open>
  Under pgvecto.rs: a status of \<open>UPGRADE\<close>, another status, a missing index, another
  failure; and pgvector.
\<close>

theorem shouldReindex_by_configuration_witness:
  "shouldReindex \<lparr>dataSource = answering [[(''idx_status'', SqlText ''UPGRADE'')]],
                  vectorExt = VECTORS, indexName = indexNames\<rparr> CLIP [] =
   (Inr True,
    [Query (''\<newline>          SELECT idx_status'' @
            ''\<newline>          FROM pg_vector_index_stat'' @
            ''\<newline>          WHERE indexname = $1'') [PText ''clip_index'']])
   \<and>
   fst (shouldReindex \<lparr>dataSource = answering [[(''idx_status'', SqlText ''NORMAL'')]],
                       vectorExt = VECTORS, indexName = indexNames\<rparr> CLIP []) = Inr False
   \<and>
   fst (shouldReindex \<lparr>dataSource = answering [], vectorExt = VECTORS,
                       indexName = indexNames\<rparr> CLIP []) = Inr False
   \<and>
   fst (shouldReindex
         \<lparr>dataSource = (\<lambda>h q. Failed ''pgvecto.rs: The index is not existing in the background worker.''),
          vectorExt = VECTORS, indexName = indexNames\<rparr> FACE []) = Inr True
   \<and>
   fst (shouldReindex \<lparr>dataSource = (\<lambda>h q. Failed ''connection lost''),
                       vectorExt = VECTORS, indexName = indexNames\<rparr> FACE []) =
     Inl (Error ''connection lost'')
   \<and>
   shouldReindex \<lparr>dataSource = (\<lambda>h q. Failed ''connection lost''),
                  vectorExt = VECTOR, indexName = indexNames\<rparr> FACE [] = (Inr False, [])"
proof -
  note defs = answering_def indexNames_def firstCell_def
  from shouldReindex_by_configuration
         [where c = "\<lparr>dataSource = answering [[(''idx_status'', SqlText ''UPGRADE'')]],
                      vectorExt = VECTORS, indexName = indexNames\<rparr>"
            and name = CLIP and h = "[]" and res = "[[(''idx_status'', SqlText ''UPGRADE'')]]",
          OF refl]
  have 1: "shouldReindex \<lparr>dataSource = answering [[(''idx_status'', SqlText ''UPGRADE'')]],
                  vectorExt = VECTORS, indexName = indexNames\<rparr> CLIP [] =
   (Inr True,
    [Query (''\<newline>          SELECT idx_status'' @
            ''\<newline>          FROM pg_vector_index_stat'' @
            ''\<newline>          WHERE indexname = $1'') [PText ''clip_index'']])"
    by (simp add: defs)
  from shouldReindex_by_configuration
         [where c = "\<lparr>dataSource = answering [[(''idx_status'', SqlText ''NORMAL'')]],
                      vectorExt = VECTORS, indexName = indexNames\<rparr>"
            and name = CLIP and h = "[]" and res = "[[(''idx_status'', SqlText ''NORMAL'')]]",
          OF refl]
  have 2: "fst (shouldReindex \<lparr>dataSource = answering [[(''idx_status'', SqlText ''NORMAL'')]],
                       vectorExt = VECTORS, indexName = indexNames\<rparr> CLIP []) = Inr False"
    by (simp add: defs)
  from shouldReindex_by_configuration
         [where c = "\<lparr>dataSource = answering [], vectorExt = VECTORS, indexName = indexNames\<rparr>"
            and name = CLIP and h = "[]" and res = "[]", OF refl]
  have 3: "fst (shouldReindex \<lparr>dataSource = answering [], vectorExt = VECTORS,
                       indexName = indexNames\<rparr> CLIP []) = Inr False"
    by (simp add: defs)
  from shouldReindex_by_configuration
         [where c = "\<lparr>dataSource = (\<lambda>h q. Failed ''pgvecto.rs: The index is not existing in the background worker.''),
                      vectorExt = VECTORS, indexName = indexNames\<rparr>"
            and name = FACE and h = "[]"
            and msg = "''pgvecto.rs: The index is not existing in the background worker.''",
          OF refl]
  have 4: "fst (shouldReindex
         \<lparr>dataSource = (\<lambda>h q. Failed ''pgvecto.rs: The index is not existing in the background worker.''),
          vectorExt = VECTORS, indexName = indexNames\<rparr> FACE []) = Inr True"
    by simp
  from shouldReindex_by_configuration
         [where c = "\<lparr>dataSource = (\<lambda>h q. Failed ''connection lost''),
                      vectorExt = VECTORS, indexName = indexNames\<rparr>"
            and name = FACE and h = "[]" and msg = "''connection lost''", OF refl]
  have 5: "fst (shouldReindex \<lparr>dataSource = (\<lambda>h q. Failed ''connection lost''),
                       vectorExt = VECTORS, indexName = indexNames\<rparr> FACE []) =
     Inl (Error ''connection lost'')"
    by simp
  from shouldReindex_by_configuration
         [where c = "\<lparr>dataSource = (\<lambda>h q. Failed ''connection lost''),
                      vectorExt = VECTOR, indexName = indexNames\<rparr>"
            and name = FACE and h = "[]", OF refl]
  have 6: "shouldReindex \<lparr>dataSource = (\<lambda>h q. Failed ''connection lost''),
                  vectorExt = VECTOR, indexName = indexNames\<rparr> FACE [] = (Inr False, [])"
    by simp
  from 1 2 3 4 5 6 show ?thesis by simp
qed

section \<open>The installed and the available version\<close>

text \<open>
  Claim C8. \<^verbatim>\<open>getExtensionVersion\<close> returns absent when \<open>pg_extension\<close> has no row for
  the extension; when the text of the installed version parses to a version equal to 0.1.1
  it returns the version 0.1.11. \<^verbatim>\<open>getAvailableExtensionVersion\<close> returns the version that
  the text of the available version parses to, whatever it is, so 0.1.1 stays 0.1.1 there.
\<close>

theorem installed_version_remap:
  assumes installedq: "installedq = Query ''SELECT extversion FROM pg_extension WHERE extname = $1''
                                     [PText (DatabaseExtension_value extension)]"
    and availableq: "availableq =
          Query (''\<newline>    SELECT version FROM pg_available_extension_versions'' @
                 ''\<newline>    WHERE name = $1 AND installed = false'' @
                 ''\<newline>    ORDER BY version DESC'')
                [PText (DatabaseExtension_value extension)]"
  shows "(dataSource c h installedq = Rows [] \<longrightarrow>
            getExtensionVersion c extension h = (Inr None, h @ [installedq]))
       \<and> (dataSource c h installedq = Rows res \<and> firstCell res ''extversion'' = SqlText extVersion
            \<and> fromString extVersion = Inr v \<and> isEqual v (Version 0 1 1) \<longrightarrow>
            getExtensionVersion c extension h = (Inr (Some (Version 0 1 11)), h @ [installedq]))
       \<and> (dataSource c h availableq = Rows res \<and> firstCell res ''version'' = SqlText extVersion
            \<and> fromString extVersion = Inr v \<longrightarrow>
            getAvailableExtensionVersion c extension h = (Inr (Some v), h @ [availableq]))"
  unfolding installedq availableq
  by (auto simp: getExtensionVersion_def getAvailableExtensionVersion_def andThen_def query_def
        returns_def throws_def firstCell_def
      split: response.splits)

text \<open>pgvecto.rs absent; installed as \<open>0.1.1\<close>; available as \<open>0.1.1\<close>.\<close>

theorem installed_version_remap_witness:
  "getExtensionVersion \<lparr>dataSource = answering [], vectorExt = VECTORS, indexName = indexNames\<rparr>
     VECTORS [] =
   (Inr None, [Query ''SELECT extversion FROM pg_extension WHERE extname = $1'' [PText ''vectors'']])
   \<and>
   getExtensionVersion
     \<lparr>dataSource = answering [[(''extversion'', SqlText ''0.1.1''), (''version'', SqlText ''0.1.1'')]],
      vectorExt = VECTORS, indexName = indexNames\<rparr> VECTORS [] =
   (Inr (Some (Version 0 1 11)),
    [Query ''SELECT extversion FROM pg_extension WHERE extname = $1'' [PText ''vectors'']])
   \<and>
   fst (getAvailableExtensionVersion
     \<lparr>dataSource = answering [[(''extversion'', SqlText ''0.1.1''), (''version'', SqlText ''0.1.1'')]],
      vectorExt = VECTORS, indexName = indexNames\<rparr> VECTORS []) =
   Inr (Some (Version 0 1 1))"
proof -
  let ?none = "\<lparr>dataSource = answering [], vectorExt = VECTORS, indexName = indexNames\<rparr>"
  let ?rows = "[[(''extversion'', SqlText ''0.1.1''), (''version'', SqlText ''0.1.1'')]]"
  let ?c = "\<lparr>dataSource = answering ?rows, vectorExt = VECTORS, indexName = indexNames\<rparr>"
  note parsed = fromString_examples(3)
  from installed_version_remap [where c = ?none and extension = VECTORS and h = "[]",
                                OF refl refl]
  have 1: "getExtensionVersion ?none VECTORS [] =
     (Inr None, [Query ''SELECT extversion FROM pg_extension WHERE extname = $1'' [PText ''vectors'']])"
    by (simp add: answering_def)
  from installed_version_remap [where c = ?c and extension = VECTORS and h = "[]"
                                  and res = ?rows and extVersion = "''0.1.1''" and v = "Version 0 1 1",
                                OF refl refl] parsed
  have 2: "getExtensionVersion ?c VECTORS [] =
     (Inr (Some (Version 0 1 11)),
      [Query ''SELECT extversion FROM pg_extension WHERE extname = $1'' [PText ''vectors'']])"
    by (simp add: answering_def firstCell_def isEqual_def)
  from installed_version_remap [where c = ?c and extension = VECTORS and h = "[]"
                                  and res = ?rows and extVersion = "''0.1.1''" and v = "Version 0 1 1",
                                OF refl refl] parsed
  have 3: "fst (getAvailableExtensionVersion ?c VECTORS []) = Inr (Some (Version 0 1 1))"
    by (simp add: answering_def firstCell_def isEqual_def)
  from 1 2 3 show ?thesis by simp
qed

end
